theory Spec2Isabelle
  imports Complex_Main "HOL-Library.Multiset"
begin

section \<open>Overview\<close>

text \<open>
  A model of the retrieval server \<open>server.js\<close>: cosine similarity, the retrieval of
  the \<open>k\<close> most similar documents, the loader of the documents, the cache of the
  embeddings, the embedding of the corpus in batches, and the route \<open>POST /generate\<close>.

  The source file holds two texts of the server, one after the other.  The first does
  not close the body of \<open>loadDocuments\<close>, so it does not parse and nothing of it
  runs.  The model is of the second text, the server as it runs.
\<close>

section \<open>JavaScript numbers\<close>

text \<open>
  The server computes with JavaScript numbers.  The model keeps the special values of
  the number type (\<open>NaN\<close> and the two infinities) and takes every other number as
  a real.  The operators of this section are exact: rounding, overflow and underflow of
  IEEE-754 doubles are left out of them, and the two zeros are one (a zero divisor stands
  for \<open>+0\<close>, the only zero that the divisor of \<open>cosineSimilarity\<close> can be).  The
  operators follow the tables of the language definition for \<open>+\<close>, \<open>-\<close>, \<open>*\<close>,
  \<open>/\<close> and \<open>Math.sqrt\<close>.

  What is proved of the retrieval rests on the comparison of the scores alone, and holds
  of whatever numbers the scores are.  The rounding is added in the section on doubles
  below, for what is proved of the value of a similarity.
\<close>

datatype jsnum = Num real | PosInf | NegInf | NaN

fun js_neg :: "jsnum \<Rightarrow> jsnum" where
  "js_neg (Num x) = Num (- x)"
| "js_neg PosInf = NegInf"
| "js_neg NegInf = PosInf"
| "js_neg NaN = NaN"

fun js_add :: "jsnum \<Rightarrow> jsnum \<Rightarrow> jsnum" where
  "js_add NaN b = NaN"
| "js_add a NaN = NaN"
| "js_add (Num x) (Num y) = Num (x + y)"
| "js_add (Num x) b = b"
| "js_add a (Num y) = a"
| "js_add PosInf PosInf = PosInf"
| "js_add NegInf NegInf = NegInf"
| "js_add PosInf NegInf = NaN"
| "js_add NegInf PosInf = NaN"

definition js_sub :: "jsnum \<Rightarrow> jsnum \<Rightarrow> jsnum" where
  "js_sub a b = js_add a (js_neg b)"

fun js_mul :: "jsnum \<Rightarrow> jsnum \<Rightarrow> jsnum" where
  "js_mul NaN b = NaN"
| "js_mul a NaN = NaN"
| "js_mul (Num x) (Num y) = Num (x * y)"
| "js_mul (Num x) b = (if x = 0 then NaN else if 0 < x then b else js_neg b)"
| "js_mul a (Num y) = (if y = 0 then NaN else if 0 < y then a else js_neg a)"
| "js_mul PosInf b = b"
| "js_mul NegInf b = js_neg b"

fun js_div :: "jsnum \<Rightarrow> jsnum \<Rightarrow> jsnum" where
  "js_div NaN b = NaN"
| "js_div a NaN = NaN"
| "js_div (Num x) (Num y) =
     (if y = 0 then (if x = 0 then NaN else if 0 < x then PosInf else NegInf)
      else Num (x / y))"
| "js_div (Num x) b = Num 0"
| "js_div a (Num y) = (if 0 \<le> y then a else js_neg a)"
| "js_div a b = NaN"

fun js_sqrt :: "jsnum \<Rightarrow> jsnum" where
  "js_sqrt (Num x) = (if x < 0 then NaN else Num (sqrt x))"
| "js_sqrt PosInf = PosInf"
| "js_sqrt NegInf = NaN"
| "js_sqrt NaN = NaN"

text \<open>\<open>a >= b\<close> on numbers: false as soon as one side is \<open>NaN\<close>.\<close>

fun js_ge :: "jsnum \<Rightarrow> jsnum \<Rightarrow> bool" where
  "js_ge NaN b = False"
| "js_ge a NaN = False"
| "js_ge PosInf b = True"
| "js_ge a NegInf = True"
| "js_ge (Num x) (Num y) = (y \<le> x)"
| "js_ge a b = False"

text \<open>\<open>v < 0\<close>, the test the sort applies to what the comparator returned.\<close>

fun is_negative :: "jsnum \<Rightarrow> bool" where
  "is_negative (Num x) = (x < 0)"
| "is_negative NegInf = True"
| "is_negative PosInf = False"
| "is_negative NaN = False"

section \<open>Arrays\<close>

text \<open>
  \<open>arr[idx]\<close> read as a number: an index past the end yields \<open>undefined\<close>, which
  arithmetic converts to \<open>NaN\<close>.
\<close>

definition js_index :: "real list \<Rightarrow> nat \<Rightarrow> jsnum" where
  "js_index arr idx = (if idx < length arr then Num (arr ! idx) else NaN)"

text \<open>
  \<open>arr.slice(start, end)\<close> for integral arguments: a negative argument counts from
  the end, and both are clamped to the array.
\<close>

definition array_slice :: "'a list \<Rightarrow> int \<Rightarrow> int \<Rightarrow> 'a list" where
  "array_slice arr start end_arg =
     (let len = int (length arr);
          from = (if start < 0 then max (len + start) 0 else min start len);
          final = (if end_arg < 0 then max (len + end_arg) 0 else min end_arg len)
      in take (nat (final - from)) (drop (nat from) arr))"

text \<open>
  \<open>arr.sort(comparefn)\<close>.  The language requires a stable sort; where the comparator
  is consistent every conforming sort gives the same array, and the model computes it
  by insertion from the left, each element placed behind the elements it does not
  strictly precede.  A comparator result of \<open>NaN\<close> counts as \<open>0\<close>.  For a comparator
  that is not consistent (some result is \<open>NaN\<close> while others are not) the language
  leaves the order to the implementation; nothing below relies on the order then, only
  on the array still holding the same elements, as it does after the insertion and merge
  sorts of the engines.
\<close>

fun sort_insert :: "('a \<Rightarrow> 'a \<Rightarrow> jsnum) \<Rightarrow> 'a \<Rightarrow> 'a list \<Rightarrow> 'a list" where
  "sort_insert comparefn x [] = [x]"
| "sort_insert comparefn x (y # ys) =
     (if is_negative (comparefn x y) then x # y # ys
      else y # sort_insert comparefn x ys)"

definition array_sort :: "('a \<Rightarrow> 'a \<Rightarrow> jsnum) \<Rightarrow> 'a list \<Rightarrow> 'a list" where
  "array_sort comparefn arr = foldl (\<lambda>sorted x. sort_insert comparefn x sorted) [] arr"

section \<open>Documents and retrieval\<close>

record doc_data =
  title :: string
  snippet :: string

text \<open>
  A document as \<open>loadDocuments\<close> builds it, \<open>{ id, data: { title, snippet } }\<close>, and a
  document of the corpus, which has its \<open>embedding\<close> too.  An embedding is a sequence
  of finite numbers: it is decoded from JSON (the provider's response or the cache
  file), which has neither \<open>NaN\<close> nor the infinities.
\<close>

record raw_document =
  doc_id :: string
  data :: doc_data

record document = raw_document +
  embedding :: "real list"

definition cosineSimilarity :: "real list \<Rightarrow> real list \<Rightarrow> jsnum" where
  "cosineSimilarity vecA vecB =
     (let dotProduct =
            foldl (\<lambda>sum (a, idx). js_add sum (js_mul (Num a) (js_index vecB idx)))
              (Num 0) (zip vecA [0..<length vecA]);
          magA = js_sqrt (foldl (\<lambda>sum a. js_add sum (js_mul (Num a) (Num a))) (Num 0) vecA);
          magB = js_sqrt (foldl (\<lambda>sum b. js_add sum (js_mul (Num b) (Num b))) (Num 0) vecB)
      in js_div dotProduct (js_mul magA magB))"

record scored =
  doc :: document
  score :: jsnum

definition compare_scores :: "scored \<Rightarrow> scored \<Rightarrow> jsnum" where
  "compare_scores a b = js_sub (score b) (score a)"

text \<open>
  \<open>getTopKDocuments(queryEmbedding, documents, k = 10)\<close>; \<open>None\<close> is a call that
  leaves \<open>k\<close> out, and a \<open>k\<close> that is given is integral.
\<close>

definition getTopKDocuments :: "real list \<Rightarrow> document list \<Rightarrow> int option \<Rightarrow> document list" where
  "getTopKDocuments queryEmbedding documents k_arg =
     (let k = (case k_arg of None \<Rightarrow> 10 | Some k' \<Rightarrow> k');
          similarities =
            map (\<lambda>d. \<lparr>doc = d, score = cosineSimilarity queryEmbedding (embedding d)\<rparr>) documents;
          similarities = array_sort compare_scores similarities
      in map doc (array_slice similarities 0 k))"

text \<open>A sequence of scores is non-increasing when every earlier one is \<open>>=\<close> every later one.\<close>

definition non_increasing :: "jsnum list \<Rightarrow> bool" where
  "non_increasing scores = sorted_wrt js_ge scores"

section \<open>Numbers as doubles\<close>

text \<open>
  A JavaScript number is an IEEE-754 double, and each operation rounds its exact result
  to the nearest double.  What depends on the value of a similarity, and not only on the
  comparison of two scores, is stated over this second model of the arithmetic: a finite
  double is a real, and an operation is the exact operation of the first model followed
  by the rounding.
\<close>

text \<open>
  The nearest integer to a real, a tie going to the even one: the rounding of an
  IEEE-754 operation in its default mode.
\<close>

definition round_half_even :: "real \<Rightarrow> int" where
  "round_half_even y =
     (let f = \<lfloor>y\<rfloor>; d = y - of_int f
      in if d < 1 / 2 then f else if 1 / 2 < d then f + 1 else if even f then f else f + 1)"

text \<open>
  The exponent of the binade a nonzero real lies in, not below \<open>-1022\<close>: below
  \<open>2^(-1022)\<close> the doubles are the subnormal ones, evenly spaced.
\<close>

definition double_exponent :: "real \<Rightarrow> int" where
  "double_exponent x = max \<lfloor>log 2 \<bar>x\<bar>\<rfloor> (- 1022)"

text \<open>
  The double nearest to a real.  A double of exponent \<open>e\<close> is a multiple of
  \<open>2^(e-52)\<close>; a real whose rounding reaches \<open>2^1024\<close> in magnitude overflows to the
  infinity of its sign.  The two zeros are one, as in the exact model.
\<close>

definition round_double :: "real \<Rightarrow> jsnum" where
  "round_double x =
     (if x = 0 then Num 0
      else
        (let quantum = 2 powr of_int (double_exponent x - 52);
             r = of_int (round_half_even (x / quantum)) * quantum
         in if 2 ^ 1024 \<le> \<bar>r\<bar> then (if 0 < x then PosInf else NegInf) else Num r))"







section \<open>The retrieval on arrays in a store\<close>

text \<open>
  JavaScript arrays are objects that a callee can change for its caller.  To say what
  \<open>getTopKDocuments\<close> does to the array it is given, the arrays live in a store, under
  references; \<open>map\<close> and \<open>slice\<close> allocate a new array, \<open>sort\<close> rewrites the array
  it is called on.
\<close>

datatype array_cell = Documents "document list" | Similarities "scored list"

record store =
  cells :: "nat \<Rightarrow> array_cell option"
  next_ref :: nat

definition new_array :: "array_cell \<Rightarrow> store \<Rightarrow> nat \<times> store" where
  "new_array c s =
     (next_ref s, s\<lparr>cells := (cells s)(next_ref s \<mapsto> c), next_ref := Suc (next_ref s)\<rparr>)"

definition scored_at :: "store \<Rightarrow> nat \<Rightarrow> scored list" where
  "scored_at s r = (case cells s r of Some (Similarities items) \<Rightarrow> items | _ \<Rightarrow> [])"

text \<open>
  The result is the reference of the returned array and the store after the call;
  \<open>None\<close> is the \<open>TypeError\<close> of a \<open>documents\<close> that is not an array of documents.
\<close>

definition getTopKDocuments_store ::
  "real list \<Rightarrow> nat \<Rightarrow> int option \<Rightarrow> store \<Rightarrow> (nat \<times> store) option" where
  "getTopKDocuments_store queryEmbedding documents k_arg s =
     (case cells s documents of
        Some (Documents docs) \<Rightarrow>
          (let k = (case k_arg of None \<Rightarrow> 10 | Some k' \<Rightarrow> k');
               (similarities, s1) =
                 new_array (Similarities
                   (map (\<lambda>d. \<lparr>doc = d, score = cosineSimilarity queryEmbedding (embedding d)\<rparr>)
                      docs)) s;
               s2 = s1\<lparr>cells := (cells s1)(similarities \<mapsto>
                       Similarities (array_sort compare_scores (scored_at s1 similarities)))\<rparr>;
               (top, s3) = new_array (Similarities (array_slice (scored_at s2 similarities) 0 k)) s2;
               (result, s4) = new_array (Documents (map doc (scored_at s3 top))) s3
           in Some (result, s4))
      | _ \<Rightarrow> None)"

section \<open>JSON and the embeddings cache\<close>

datatype json =
    JNull
  | JBool bool
  | JNumber real
  | JString string
  | JArray "json list"
  | JObject "(string \<times> json) list"

text \<open>
  The cache is the one file \<open>EMBEDDINGS_FILE\<close>.  \<open>JSON.parse\<close> inverts
  \<open>JSON.stringify\<close> on the values that \<open>saveEmbeddingsToFile\<close> writes (objects of
  strings and arrays of finite numbers), so a file that holds the serialisation of a
  value is represented by that value, and the text itself is not modelled.
  \<open>Unparsable\<close> is a file whose text is not JSON, \<open>Missing\<close> a file that cannot be read.
  (The one number that the text does not give back as it was is \<open>-0\<close>, written as
  \<open>0\<close>; the model has one zero.)
\<close>

datatype cache_file = Missing | Unparsable | Holds json

record disk =
  embeddings_file :: cache_file
  writable :: bool

datatype js_error = TypeError | IOError | ProviderError string

text \<open>\<open>saveEmbeddingsToFile\<close>: \<open>fs.writeFile\<close> rejects on a disk that refuses the write.\<close>

definition cache_record :: "document \<Rightarrow> json" where
  "cache_record d =
     JObject
       [(''id'', JString (doc_id d)),
        (''title'', JString (title (data d))),
        (''snippet'', JString (snippet (data d))),
        (''embedding'', JArray (map JNumber (embedding d)))]"

definition embeddingsData :: "document list \<Rightarrow> json" where
  "embeddingsData documents = JArray (map cache_record documents)"

definition saveEmbeddingsToFile :: "document list \<Rightarrow> disk \<Rightarrow> js_error + disk" where
  "saveEmbeddingsToFile documents d =
     (if writable d then Inr (d\<lparr>embeddings_file := Holds (embeddingsData documents)\<rparr>)
      else Inl IOError)"

text \<open>
  What \<open>loadEmbeddingsFromFile\<close> returns is built from whatever the file holds:
  \<open>item.id\<close> of an object is the member of that name or \<open>undefined\<close> (\<open>None\<close>), of
  any other value but \<open>null\<close> it is \<open>undefined\<close>, and of \<open>null\<close> it throws.  The
  members of a parsed object have distinct names.
\<close>

record loaded_data =
  loaded_title :: "json option"
  loaded_snippet :: "json option"

record loaded_document =
  loaded_id :: "json option"
  loaded_data :: loaded_data
  loaded_embedding :: "json option"

fun get_member :: "json \<Rightarrow> string \<Rightarrow> js_error + json option" where
  "get_member JNull key = Inl TypeError"
| "get_member (JObject members) key = Inr (map_of members key)"
| "get_member v key = Inr None"

definition load_item :: "json \<Rightarrow> js_error + loaded_document" where
  "load_item item =
     (case (get_member item ''id'', get_member item ''title'',
            get_member item ''snippet'', get_member item ''embedding'') of
        (Inr i, Inr t, Inr s, Inr e) \<Rightarrow>
          Inr \<lparr>loaded_id = i, loaded_data = \<lparr>loaded_title = t, loaded_snippet = s\<rparr>,
               loaded_embedding = e\<rparr>
      | _ \<Rightarrow> Inl TypeError)"

fun load_items :: "json list \<Rightarrow> js_error + loaded_document list" where
  "load_items [] = Inr []"
| "load_items (item # items) =
     (case load_item item of
        Inl err \<Rightarrow> Inl err
      | Inr d \<Rightarrow> (case load_items items of Inl err \<Rightarrow> Inl err | Inr ds \<Rightarrow> Inr (d # ds)))"

text \<open>\<open>None\<close> is the \<open>null\<close> that the \<open>catch\<close> returns.\<close>

definition loadEmbeddingsFromFile :: "disk \<Rightarrow> loaded_document list option" where
  "loadEmbeddingsFromFile d =
     (case embeddings_file d of
        Holds (JArray items) \<Rightarrow>
          (case load_items items of Inl err \<Rightarrow> None | Inr ds \<Rightarrow> Some ds)
      | _ \<Rightarrow> None)"

text \<open>The loaded object read as a document of the corpus, when it has that shape.\<close>

fun as_number :: "json \<Rightarrow> real option" where
  "as_number (JNumber x) = Some x"
| "as_number v = None"

fun as_numbers :: "json list \<Rightarrow> real list option" where
  "as_numbers [] = Some []"
| "as_numbers (v # vs) =
     (case (as_number v, as_numbers vs) of (Some x, Some xs) \<Rightarrow> Some (x # xs) | _ \<Rightarrow> None)"

definition as_document :: "loaded_document \<Rightarrow> document option" where
  "as_document l =
     (case (loaded_id l, loaded_title (loaded_data l), loaded_snippet (loaded_data l),
            loaded_embedding l) of
        (Some (JString i), Some (JString t), Some (JString s), Some (JArray vs)) \<Rightarrow>
          (case as_numbers vs of
             Some e \<Rightarrow> Some \<lparr>doc_id = i, data = \<lparr>title = t, snippet = s\<rparr>, embedding = e\<rparr>
           | None \<Rightarrow> None)
      | _ \<Rightarrow> None)"

section \<open>Loading the documents\<close>

text \<open>
  Strings are sequences of characters of ASCII text.  \<open>\w\<close> is a letter, a digit or
  the underscore; \<open>trim\<close> strips the white space of both ends (beyond ASCII it also
  strips the Unicode spaces, which this character type does not have).
\<close>

definition lower_case :: string where
  "lower_case = ''abcdefghijklmnopqrstuvwxyz''"

definition upper_case :: string where
  "upper_case = ''ABCDEFGHIJKLMNOPQRSTUVWXYZ''"

definition toUpperCase :: "char \<Rightarrow> char" where
  "toUpperCase c = (case map_of (zip lower_case upper_case) c of Some u \<Rightarrow> u | None \<Rightarrow> c)"

definition toLowerCase :: "char \<Rightarrow> char" where
  "toLowerCase c = (case map_of (zip upper_case lower_case) c of Some l \<Rightarrow> l | None \<Rightarrow> c)"

definition is_word_char :: "char \<Rightarrow> bool" where
  "is_word_char c = (c \<in> set (lower_case @ upper_case @ ''0123456789_''))"

definition is_white_space :: "char \<Rightarrow> bool" where
  "is_white_space c = (c \<in> set [CHR 0x09, CHR 0x0A, CHR 0x0B, CHR 0x0C, CHR 0x0D, CHR '' ''])"

definition trim :: "string \<Rightarrow> string" where
  "trim s = rev (dropWhile is_white_space (rev (dropWhile is_white_space s)))"

text \<open>\<open>file.split('/').pop()\<close>: what follows the last slash.\<close>

definition last_segment :: "string \<Rightarrow> string" where
  "last_segment file = rev (takeWhile (\<lambda>c. c \<noteq> CHR ''/'') (rev file))"

definition ends_with :: "string \<Rightarrow> string \<Rightarrow> bool" where
  "ends_with s ext = (length ext \<le> length s \<and> drop (length s - length ext) s = ext)"

text \<open>\<open>.replace(/\.(md|txt)$/i, '')\<close>\<close>

definition strip_extension :: "string \<Rightarrow> string" where
  "strip_extension name =
     (let folded = map toLowerCase name in
      if ends_with folded ''.md'' then take (length name - 3) name
      else if ends_with folded ''.txt'' then take (length name - 4) name
      else name)"

text \<open>
  \<open>.replace(/\b\w/g, l => l.toUpperCase())\<close>: a word character is at a word boundary
  when no word character stands before it; \<open>before\<close> says whether one does.
\<close>

fun capitalize_words :: "bool \<Rightarrow> string \<Rightarrow> string" where
  "capitalize_words before [] = []"
| "capitalize_words before (c # cs) =
     (if is_word_char c \<and> \<not> before then toUpperCase c else c)
       # capitalize_words (is_word_char c) cs"

definition make_document :: "string \<Rightarrow> string \<Rightarrow> raw_document" where
  "make_document file content =
     (let filename = strip_extension (last_segment file);
          cleanTitle =
            capitalize_words False (map (\<lambda>c. if c = CHR ''_'' then CHR '' '' else c) filename)
      in \<lparr>doc_id = filename, data = \<lparr>title = cleanTitle, snippet = trim content\<rparr>\<rparr>)"

text \<open>
  \<open>loadDocuments\<close>, with the list \<open>files\<close> (a constant of the function) and the file
  system's \<open>fs.readFile\<close> as arguments.  The console is the list of its entries: one
  \<open>console.error\<close> for a read that failed, and the closing \<open>console.log\<close> with the
  number of documents.  The result is a sum, as for every asynchronous function: \<open>Inl\<close>
  would be a rejection.
\<close>

datatype log_entry = ErrorReading string js_error | Loaded nat

fun loadDocuments_loop ::
  "(string \<Rightarrow> js_error + string) \<Rightarrow> string list \<Rightarrow> raw_document list \<Rightarrow> log_entry list
     \<Rightarrow> raw_document list \<times> log_entry list" where
  "loadDocuments_loop readFile [] documents console = (documents, console)"
| "loadDocuments_loop readFile (file # files) documents console =
     (case readFile file of
        Inr content \<Rightarrow>
          loadDocuments_loop readFile files (documents @ [make_document file content]) console
      | Inl err \<Rightarrow>
          loadDocuments_loop readFile files documents (console @ [ErrorReading file err]))"

definition loadDocuments ::
  "(string \<Rightarrow> js_error + string) \<Rightarrow> string list
     \<Rightarrow> (js_error + raw_document list) \<times> log_entry list" where
  "loadDocuments readFile files =
     (let (documents, console) = loadDocuments_loop readFile files [] []
      in (Inr documents, console @ [Loaded (length documents)]))"

section \<open>The provider\<close>

text \<open>
  The embedding and chat provider is outside the program: a state of its own and two
  calls that answer with a response or fail.  The world of a run is the provider's
  state and the calls made so far, in order.
\<close>

record embed_request =
  texts :: "json list"
  model :: string
  input_type :: string

record embed_response =
  embeddings :: "real list list"

record chat_request =
  chat_model :: string
  message :: json
  chat_documents :: "string list"
  preamble :: string
  temperature :: real

record chat_response =
  reply_text :: string
  citations :: "json option"

record 's provider =
  embed :: "embed_request \<Rightarrow> 's \<Rightarrow> (js_error + embed_response) \<times> 's"
  chat :: "chat_request \<Rightarrow> 's \<Rightarrow> (js_error + chat_response) \<times> 's"

datatype provider_call = EmbedCall embed_request | ChatCall chat_request

record 's world =
  provider_state :: 's
  calls :: "provider_call list"

definition cohere_embed ::
  "'s provider \<Rightarrow> embed_request \<Rightarrow> 's world \<Rightarrow> (js_error + embed_response) \<times> 's world" where
  "cohere_embed cohere request w =
     (let (answer, p) = embed cohere request (provider_state w)
      in (answer, \<lparr>provider_state = p, calls = calls w @ [EmbedCall request]\<rparr>))"

definition cohere_chat ::
  "'s provider \<Rightarrow> chat_request \<Rightarrow> 's world \<Rightarrow> (js_error + chat_response) \<times> 's world" where
  "cohere_chat cohere request w =
     (let (answer, p) = chat cohere request (provider_state w)
      in (answer, \<lparr>provider_state = p, calls = calls w @ [ChatCall request]\<rparr>))"

definition document_text :: "'a raw_document_scheme \<Rightarrow> string" where
  "document_text d = title (data d) @ ''. '' @ snippet (data d)"

section \<open>Embedding the corpus at startup\<close>

text \<open>
  \<open>embedDocumentsInBatches(documents, batchSize = 96)\<close>: the loop
  \<open>for (let i = 0; i < documents.length; i += batchSize)\<close>, one request per batch.  A
  failed request rejects the whole function.  The loop need not end (a \<open>batchSize\<close> of
  \<open>0\<close> never advances \<open>i\<close>), so it is a partial function: \<open>None\<close> is a run that does
  not return.  The pause between two batches is not modelled.
\<close>

definition document_request :: "'a raw_document_scheme list \<Rightarrow> embed_request" where
  "document_request batch =
     \<lparr>texts = map (\<lambda>d. JString (document_text d)) batch,
      model = ''embed-multilingual-v3.0'',
      input_type = ''search_document''\<rparr>"

partial_function (option) embed_batches ::
  "'s provider \<Rightarrow> raw_document list \<Rightarrow> nat \<Rightarrow> nat \<Rightarrow> real list list \<Rightarrow> 's world
     \<Rightarrow> ((js_error + real list list) \<times> 's world) option" where
  "embed_batches cohere documents batchSize i allEmbeddings w =
     (if i < length documents then
        (let batch = array_slice documents (int i) (int (i + batchSize)) in
         case cohere_embed cohere (document_request batch) w of
           (Inl err, w') \<Rightarrow> Some (Inl err, w')
         | (Inr response, w') \<Rightarrow>
             embed_batches cohere documents batchSize (i + batchSize)
               (allEmbeddings @ embeddings response) w')
      else Some (Inr allEmbeddings, w))"

definition embedDocumentsInBatches ::
  "'s provider \<Rightarrow> raw_document list \<Rightarrow> nat option \<Rightarrow> 's world
     \<Rightarrow> ((js_error + real list list) \<times> 's world) option" where
  "embedDocumentsInBatches cohere documents batchSize_arg w =
     embed_batches cohere documents (case batchSize_arg of None \<Rightarrow> 96 | Some b \<Rightarrow> b) 0 [] w"

section \<open>The route \<open>POST /generate\<close>\<close>

record http_response =
  status :: nat
  body :: json

definition error_response :: "nat \<Rightarrow> string \<Rightarrow> http_response" where
  "error_response code msg = \<lparr>status = code, body = JObject [(''error'', JString msg)]\<rparr>"

text \<open>\<open>!prompt\<close> is the negation of this; \<open>None\<close> is a body without the member.\<close>

fun truthy :: "json option \<Rightarrow> bool" where
  "truthy None = False"
| "truthy (Some JNull) = False"
| "truthy (Some (JBool b)) = b"
| "truthy (Some (JNumber x)) = (x \<noteq> 0)"
| "truthy (Some (JString s)) = (s \<noteq> [])"
| "truthy (Some v) = True"

text \<open>
  \<open>getTopKDocuments(embedResponse.embeddings[0], cachedDocuments, k)\<close> as the handler
  calls it: \<open>cachedDocuments\<close> is \<open>null\<close> (\<open>None\<close>) while \<open>initializeDocuments\<close> has
  found no cache and not yet embedded, and \<open>embeddings[0]\<close> is \<open>undefined\<close> when the
  provider answered with no embedding; \<open>null.map\<close> throws, and so does
  \<open>undefined.reduce\<close> once there is a document to score.
\<close>

definition retrieve ::
  "real list list \<Rightarrow> document list option \<Rightarrow> int \<Rightarrow> js_error + document list" where
  "retrieve response_embeddings cachedDocuments k =
     (case cachedDocuments of
        None \<Rightarrow> Inl TypeError
      | Some docs \<Rightarrow>
          (case response_embeddings of
             [] \<Rightarrow> if docs = [] then Inr [] else Inl TypeError
           | queryEmbedding # rest \<Rightarrow> Inr (getTopKDocuments queryEmbedding docs (Some k))))"

definition bookworm_preamble :: string where
  "bookworm_preamble = ''You are a warm, highly knowledgeable literary critic and librarian named 'Bookworm Bot'. Your specialization is summarizing, analyzing themes, identifying characters, and recommending books across all genres and historical periods. When answering, provide insightful literary context and cite your sources (books, journals, or online articles) when possible. Use Google Search to find up-to-date information, and cite your sources.''"

definition grounded_chat :: "json \<Rightarrow> document list \<Rightarrow> chat_request" where
  "grounded_chat prompt topDocuments =
     \<lparr>chat_model = ''command-r-plus'',
      message = prompt,
      chat_documents = map document_text topDocuments,
      preamble = bookworm_preamble,
      temperature = 3 / 10\<rparr>"

definition reply :: "chat_response \<Rightarrow> http_response" where
  "reply response =
     \<lparr>status = 200,
      body = JObject
        [(''text'', JString (reply_text response)),
         (''citations'', (case citations response of None \<Rightarrow> JArray [] | Some c \<Rightarrow> c))]\<rparr>"

text \<open>
  The handler.  \<open>req.body\<close> is an object once the body parser has parsed the request,
  here the function from the names of its members to their values; it is \<open>undefined\<close>
  (\<open>None\<close>) when the parser left the request alone (no body, or a content type that
  is not JSON).  The first statement, \<open>const { prompt } = req.body\<close>, stands before the
  \<open>try\<close>: on \<open>undefined\<close> it throws, the handler sends no response of its own and
  its result is the error (\<open>Inl\<close>); what the client then receives is the framework's
  answer to a handler that failed.  The \<open>try\<close> block first takes
  \<open>prompt.substring(0, 30)\<close> for the console, which throws for a prompt that is not a
  string; every error of the block reaches the one \<open>catch\<close>.
\<close>

definition query_request :: "json \<Rightarrow> embed_request" where
  "query_request prompt =
     \<lparr>texts = [prompt], model = ''embed-multilingual-v3.0'', input_type = ''search_query''\<rparr>"

definition generate_try ::
  "'s provider \<Rightarrow> document list option \<Rightarrow> json \<Rightarrow> 's world
     \<Rightarrow> (js_error + http_response) \<times> 's world" where
  "generate_try cohere cachedDocuments prompt w =
     (case prompt of
        JString p \<Rightarrow>
          (case cohere_embed cohere (query_request prompt) w of
             (Inl err, w1) \<Rightarrow> (Inl err, w1)
           | (Inr embedResponse, w1) \<Rightarrow>
               (case retrieve (embeddings embedResponse) cachedDocuments 5 of
                  Inl err \<Rightarrow> (Inl err, w1)
                | Inr topDocuments \<Rightarrow>
                    (case cohere_chat cohere (grounded_chat prompt topDocuments) w1 of
                       (Inl err, w2) \<Rightarrow> (Inl err, w2)
                     | (Inr response, w2) \<Rightarrow> (Inr (reply response), w2))))
      | _ \<Rightarrow> (Inl TypeError, w))"

definition generate ::
  "'s provider \<Rightarrow> document list option \<Rightarrow> (string \<Rightarrow> json option) option \<Rightarrow> 's world
     \<Rightarrow> (js_error + http_response) \<times> 's world" where
  "generate cohere cachedDocuments req_body w =
     (case req_body of
        None \<Rightarrow> (Inl TypeError, w)
      | Some members \<Rightarrow>
          (let prompt = members ''prompt'' in
           if \<not> truthy prompt then (Inr (error_response 400 ''Prompt is required''), w)
           else
             (case generate_try cohere cachedDocuments (the prompt) w of
                (Inr response, w') \<Rightarrow> (Inr response, w')
              | (Inl err, w') \<Rightarrow> (Inr (error_response 500 ''Cohere request failed''), w'))))"

section \<open>Notions for stating the properties\<close>

text \<open>The scores of a sequence of documents against a query, in order.\<close>

definition scores_of :: "real list \<Rightarrow> document list \<Rightarrow> jsnum list" where
  "scores_of q ds = map (\<lambda>d. cosineSimilarity q (embedding d)) ds"

text \<open>The array \<open>similarities\<close> of \<open>getTopKDocuments\<close> after its \<open>sort\<close>.\<close>

definition similarities_of :: "real list \<Rightarrow> document list \<Rightarrow> scored list" where
  "similarities_of q docs =
     array_sort compare_scores
       (map (\<lambda>d. \<lparr>doc = d, score = cosineSimilarity q (embedding d)\<rparr>) docs)"




subsection \<open>Example inputs\<close>

definition example_document :: "string \<Rightarrow> real list \<Rightarrow> document" where
  "example_document name e =
     \<lparr>doc_id = name, data = \<lparr>title = name, snippet = ''text''\<rparr>, embedding = e\<rparr>"

definition example_corpus :: "document list" where
  "example_corpus =
     [example_document ''across'' [0, 1], example_document ''along'' [1, 0],
      example_document ''against'' [- 1, 0]]"

text \<open>A document whose embedding has magnitude zero.\<close>

definition zero_document :: document where
  "zero_document = example_document ''zero'' [0, 0]"

definition example_store :: store where
  "example_store = \<lparr>cells = (\<lambda>r. None)(0 \<mapsto> Documents example_corpus), next_ref = 1\<rparr>"

definition example_disk :: disk where
  "example_disk = \<lparr>embeddings_file = Missing, writable = True\<rparr>"

definition example_readFile :: "string \<Rightarrow> js_error + string" where
  "example_readFile file =
     (if file = ''./documents/pride_prejudice_analysis.txt'' then Inr '' It is a truth. ''
      else if file = ''./notes/moby_dick.MD'' then Inr ''Call me Ishmael.''
      else Inl IOError)"

definition example_files :: "string list" where
  "example_files =
     [''./documents/pride_prejudice_analysis.txt'', ''./documents/missing.txt'',
      ''./notes/moby_dick.MD'']"

subsection \<open>What one file contributes\<close>

text \<open>The document that a file gives when its read succeeds, and the console entry when it fails.\<close>

definition read_ok :: "(string \<Rightarrow> js_error + string) \<Rightarrow> string \<Rightarrow> raw_document option" where
  "read_ok readFile file =
     (case readFile file of Inr content \<Rightarrow> Some (make_document file content) | Inl err \<Rightarrow> None)"

definition read_failed :: "(string \<Rightarrow> js_error + string) \<Rightarrow> string \<Rightarrow> log_entry option" where
  "read_failed readFile file =
     (case readFile file of Inr content \<Rightarrow> None | Inl err \<Rightarrow> Some (ErrorReading file err))"

subsection \<open>Providers and requests for the examples\<close>

text \<open>The input types of the embedding requests among a sequence of calls, in order.\<close>

fun embed_input_types :: "provider_call list \<Rightarrow> string list" where
  "embed_input_types [] = []"
| "embed_input_types (EmbedCall request # cs) = input_type request # embed_input_types cs"
| "embed_input_types (ChatCall request # cs) = embed_input_types cs"

text \<open>
  A provider that answers every call, one whose embedding call fails and one whose chat
  call fails; their state counts the calls.
\<close>

definition stub_provider :: "nat provider" where
  "stub_provider =
     \<lparr>embed = (\<lambda>request n. (Inr \<lparr>embeddings = [[1, 0]]\<rparr>, Suc n)),
      chat = (\<lambda>request n. (Inr \<lparr>reply_text = ''An answer.'', citations = None\<rparr>, Suc n))\<rparr>"

definition embed_down_provider :: "nat provider" where
  "embed_down_provider =
     \<lparr>embed = (\<lambda>request n. (Inl (ProviderError ''429 too many requests, key sk-1''), Suc n)),
      chat = (\<lambda>request n. (Inr \<lparr>reply_text = ''An answer.'', citations = None\<rparr>, Suc n))\<rparr>"

definition chat_down_provider :: "nat provider" where
  "chat_down_provider =
     \<lparr>embed = (\<lambda>request n. (Inr \<lparr>embeddings = [[1, 0]]\<rparr>, Suc n)),
      chat = (\<lambda>request n. (Inl (ProviderError ''500 internal, trace 7f3a''), Suc n))\<rparr>"

definition example_world :: "nat world" where
  "example_world = \<lparr>provider_state = 0, calls = []\<rparr>"

text \<open>The request bodies \<open>{ prompt: ... }\<close> and \<open>{}\<close>.\<close>

definition body_with_prompt :: "json \<Rightarrow> (string \<Rightarrow> json option) option" where
  "body_with_prompt prompt = Some (Map.empty(''prompt'' \<mapsto> prompt))"


text \<open>Three documents as \<open>loadDocuments\<close> builds them, for the startup embedding.\<close>

definition example_raw_documents :: "raw_document list" where
  "example_raw_documents =
     [\<lparr>doc_id = ''emma'', data = \<lparr>title = ''Emma'', snippet = ''Emma Woodhouse''\<rparr>\<rparr>,
      \<lparr>doc_id = ''persuasion'', data = \<lparr>title = ''Persuasion'', snippet = ''Anne Elliot''\<rparr>\<rparr>,
      \<lparr>doc_id = ''sanditon'', data = \<lparr>title = ''Sanditon'', snippet = ''A fragment''\<rparr>\<rparr>]"

subsection \<open>Numbers for the examples of rounding\<close>


definition three_below :: real where
  "three_below = 6755399441055743 / 2 ^ 51"



section \<open>Properties of the sort\<close>




lemma mset_sort_insert: "mset (sort_insert c x ys) = add_mset x (mset ys)"
  by (induction ys) auto


lemma mset_foldl_sort_insert:
  "mset (foldl (\<lambda>sorted x. sort_insert c x sorted) acc xs) = mset acc + mset xs"
  by (induction xs arbitrary: acc) (auto simp: mset_sort_insert)

lemma mset_array_sort: "mset (array_sort c xs) = mset xs"
  by (simp add: array_sort_def mset_foldl_sort_insert)






section \<open>Properties of the retrieval\<close>

lemma array_slice_0: "array_slice xs 0 k = take (if k < 0 then nat (int (length xs) + k) else nat k) xs"
  by (auto simp: array_slice_def Let_def min_def max_def)


lemma getTopKDocuments_default: "getTopKDocuments q docs None = getTopKDocuments q docs (Some 10)"
  by (simp add: getTopKDocuments_def)

lemma getTopKDocuments_take: "\<exists>n. getTopKDocuments q docs k = map doc (take n (similarities_of q docs))"
  by (auto simp: getTopKDocuments_def similarities_of_def array_slice_0 Let_def)





lemma cos_unit [simp]:
  "cosineSimilarity [1, 0] [0, 1] = Num 0"
  "cosineSimilarity [1, 0] [1, 0] = Num 1"
  "cosineSimilarity [1, 0] [-1, 0] = Num (-1)"
  "cosineSimilarity [1, 0] [0, 0] = NaN"
  by (simp_all add: cosineSimilarity_def js_index_def)


lemma map_doc_similarities_of: "mset (map doc (similarities_of q docs)) = mset docs"
proof -
  have "mset (map doc (similarities_of q docs)) = image_mset doc (mset (similarities_of q docs))"
    by simp
  also have "\<dots> = image_mset doc
      (mset (map (\<lambda>d. \<lparr>doc = d, score = cosineSimilarity q (embedding d)\<rparr>) docs))"
    by (simp only: similarities_of_def mset_array_sort)
  also have "\<dots> = mset docs"
    by (simp add: image_mset.compositionality comp_def)
  finally show ?thesis .
qed

lemma mset_take_subset: "mset (take n xs) \<subseteq># mset xs"
  by (metis append_take_drop_id mset_subset_eq_add_left mset_append)

lemma mset_getTopKDocuments_subset: "mset (getTopKDocuments q docs k) \<subseteq># mset docs"
proof -
  obtain n where n: "getTopKDocuments q docs k = map doc (take n (similarities_of q docs))"
    using getTopKDocuments_take by blast
  have "image_mset doc (mset (take n (similarities_of q docs)))
          \<subseteq># image_mset doc (mset (similarities_of q docs))"
    by (rule image_mset_subseteq_mono) (rule mset_take_subset)
  then show ?thesis
    using map_doc_similarities_of[of q docs] by (simp add: n)
qed

lemma positions_of_sub_multiset:
  "mset ys \<subseteq># mset xs \<Longrightarrow>
     \<exists>is. distinct is \<and> (\<forall>i\<in>set is. i < length xs) \<and> ys = map (nth xs) is"
proof (induction xs arbitrary: ys)
  case Nil
  then show ?case by simp
next
  case (Cons x xs)
  show ?case
  proof (cases "x \<in> set ys")
    case True
    then obtain ys1 ys2 where ys: "ys = ys1 @ x # ys2"
      by (meson split_list)
    with Cons.prems have "mset (ys1 @ ys2) \<subseteq># mset xs"
      by simp
    from Cons.IH[OF this] obtain js where js: "distinct js" "\<forall>i\<in>set js. i < length xs"
      "ys1 @ ys2 = map (nth xs) js"
      by blast
    let ?a = "take (length ys1) js" and ?b = "drop (length ys1) js"
    have len: "length js = length ys1 + length ys2"
      using js(3) by (metis length_append length_map)
    have a: "ys1 = map (nth xs) ?a"
      using js(3) len by (metis append_eq_conv_conj take_map)
    have b: "ys2 = map (nth xs) ?b"
      using js(3) len by (metis append_eq_conv_conj drop_map)
    let ?is = "map Suc ?a @ 0 # map Suc ?b"
    have "distinct ?a \<and> distinct ?b \<and> set ?a \<inter> set ?b = {}"
      by (metis append_take_drop_id distinct_append js(1))
    then have "distinct ?is"
      by (auto simp: distinct_map)
    moreover have "\<forall>i\<in>set ?is. i < length (x # xs)"
      using js(2) by (auto dest: in_set_takeD in_set_dropD)
    moreover have "ys = map (nth (x # xs)) ?is"
      using a b ys by (simp add: comp_def)
    ultimately show ?thesis by blast
  next
    case False
    have "count (mset ys) a \<le> count (mset xs) a" for a
    proof (cases "a = x")
      case True
      with False have "a \<notin># mset ys"
        by simp
      then have "count (mset ys) a = 0"
        by (simp only: not_in_iff)
      then show ?thesis by (simp only: le0)
    next
      case other: False
      from Cons.prems have "count (mset ys) a \<le> count (mset (x # xs)) a"
        by (simp only: subseteq_mset_def)
      with other show ?thesis by simp
    qed
    then have "mset ys \<subseteq># mset xs"
      by (simp add: subseteq_mset_def)
    from Cons.IH[OF this] obtain js where js: "distinct js" "\<forall>i\<in>set js. i < length xs"
      "ys = map (nth xs) js"
      by blast
    have "distinct (map Suc js)" using js(1) by (simp add: distinct_map)
    moreover have "\<forall>i\<in>set (map Suc js). i < length (x # xs)" using js(2) by auto
    moreover have "ys = map (nth (x # xs)) (map Suc js)" using js(3) by (simp add: comp_def)
    ultimately show ?thesis by blast
  qed
qed

lemma getTopKDocuments_store_frame:
  assumes "cells s r = Some (Documents docs)" and "r < next_ref s"
  shows "\<exists>res s'. getTopKDocuments_store q r k s = Some (res, s')
           \<and> cells s' res = Some (Documents (getTopKDocuments q docs k))
           \<and> (\<forall>r'<next_ref s. cells s' r' = cells s r')"
  using assms
  by (simp add: getTopKDocuments_store_def new_array_def scored_at_def getTopKDocuments_def Let_def)

lemmas example_defs = example_corpus_def zero_document_def example_document_def
lemmas topK_eval = getTopKDocuments_def array_sort_def array_slice_def compare_scores_def
  js_sub_def scores_of_def non_increasing_def







text \<open>
  Claim C10.  For \<open>k \<ge> 0\<close>: every returned document is a document of the corpus; the
  returned documents come from distinct positions of the corpus; on the store, the call
  returns a new array that holds the result and leaves every array that existed before
  the call, the corpus among them, as it was; and the empty corpus gives the empty
  sequence.
\<close>

theorem topK_selects_from_corpus:
  "0 \<le> k \<Longrightarrow>
     set (getTopKDocuments q docs (Some k)) \<subseteq> set docs
     \<and> (\<exists>is. distinct is \<and> (\<forall>i\<in>set is. i < length docs)
            \<and> getTopKDocuments q docs (Some k) = map (nth docs) is)
     \<and> (\<forall>s r. cells s r = Some (Documents docs) \<and> r < next_ref s \<longrightarrow>
            (\<exists>res s'. getTopKDocuments_store q r (Some k) s = Some (res, s')
               \<and> cells s' res = Some (Documents (getTopKDocuments q docs (Some k)))
               \<and> (\<forall>r'<next_ref s. cells s' r' = cells s r')))
     \<and> getTopKDocuments q [] (Some k) = []"
proof (intro conjI allI impI)
  show "set (getTopKDocuments q docs (Some k)) \<subseteq> set docs"
    using mset_getTopKDocuments_subset[of q docs "Some k"] by (metis set_mset_mono set_mset_mset)
  show "\<exists>is. distinct is \<and> (\<forall>i\<in>set is. i < length docs)
            \<and> getTopKDocuments q docs (Some k) = map (nth docs) is"
    by (rule positions_of_sub_multiset) (rule mset_getTopKDocuments_subset)
  show "getTopKDocuments q [] (Some k) = []"
    by (simp add: getTopKDocuments_def array_sort_def array_slice_def)
  fix s :: store and r
  assume "cells s r = Some (Documents docs) \<and> r < next_ref s"
  then show "\<exists>res s'. getTopKDocuments_store q r (Some k) s = Some (res, s')
               \<and> cells s' res = Some (Documents (getTopKDocuments q docs (Some k)))
               \<and> (\<forall>r'<next_ref s. cells s' r' = cells s r')"
    using getTopKDocuments_store_frame[of s r docs q "Some k"] by blast
qed

theorem topK_selects_from_corpus_witness:
  "set (getTopKDocuments [1, 0] example_corpus (Some 2)) \<subseteq> set example_corpus
   \<and> (\<exists>is. distinct is \<and> getTopKDocuments [1, 0] example_corpus (Some 2) = map (nth example_corpus) is)
   \<and> (\<exists>res s'. getTopKDocuments_store [1, 0] 0 (Some 2) example_store = Some (res, s')
         \<and> cells s' res = Some (Documents (getTopKDocuments [1, 0] example_corpus (Some 2)))
         \<and> cells s' 0 = Some (Documents example_corpus))
   \<and> getTopKDocuments [1, 0] [] (Some 2) = []"
proof -
  have k: "(0::int) \<le> 2" by simp
  have st: "cells example_store 0 = Some (Documents example_corpus) \<and> 0 < next_ref example_store"
    by (simp add: example_store_def)
  from topK_selects_from_corpus[OF k, of "[1, 0]" example_corpus]
  have a: "set (getTopKDocuments [1, 0] example_corpus (Some 2)) \<subseteq> set example_corpus"
    and b: "\<exists>is. distinct is \<and> (\<forall>i\<in>set is. i < length example_corpus)
            \<and> getTopKDocuments [1, 0] example_corpus (Some 2) = map (nth example_corpus) is"
    and c: "\<forall>s r. cells s r = Some (Documents example_corpus) \<and> r < next_ref s \<longrightarrow>
            (\<exists>res s'. getTopKDocuments_store [1, 0] r (Some 2) s = Some (res, s')
               \<and> cells s' res = Some (Documents (getTopKDocuments [1, 0] example_corpus (Some 2)))
               \<and> (\<forall>r'<next_ref s. cells s' r' = cells s r'))"
    and d: "getTopKDocuments [1, 0] [] (Some 2) = []"
    by blast+
  from c st obtain res s' where
    "getTopKDocuments_store [1, 0] 0 (Some 2) example_store = Some (res, s')"
    "cells s' res = Some (Documents (getTopKDocuments [1, 0] example_corpus (Some 2)))"
    "\<forall>r'<next_ref example_store. cells s' r' = cells example_store r'"
    by blast
  with st have e: "\<exists>res s'. getTopKDocuments_store [1, 0] 0 (Some 2) example_store = Some (res, s')
         \<and> cells s' res = Some (Documents (getTopKDocuments [1, 0] example_corpus (Some 2)))
         \<and> cells s' 0 = Some (Documents example_corpus)"
    by auto
  from b have b': "\<exists>is. distinct is
      \<and> getTopKDocuments [1, 0] example_corpus (Some 2) = map (nth example_corpus) is"
    by blast
  from a b' e d show ?thesis by blast
qed

section \<open>Properties of the cache\<close>

lemma as_numbers_JNumber: "as_numbers (map JNumber e) = Some e"
  by (induction e) auto

lemma load_item_saved:
  "\<exists>l. load_item (cache_record d) = Inr l \<and> as_document l = Some d"
  by (simp add: load_item_def cache_record_def as_document_def as_numbers_JNumber)

lemma load_items_saved:
  "\<exists>loaded. load_items (map cache_record docs) = Inr loaded
     \<and> map as_document loaded = map Some docs"
proof (induction docs)
  case Nil
  then show ?case by simp
next
  case (Cons d docs)
  then obtain loaded where "load_items (map cache_record docs) = Inr loaded"
     "map as_document loaded = map Some docs"
    by blast
  moreover obtain l where "load_item (cache_record d) = Inr l" "as_document l = Some d"
    using load_item_saved by blast
  ultimately show ?case
    by simp
qed

text \<open>
  Claim C3.  On a disk that takes the write, \<open>saveEmbeddingsToFile\<close> succeeds; and
  after a successful save \<open>loadEmbeddingsFromFile\<close> returns one object per saved
  document, in the order of the saved corpus, each of which reads as the document it was
  saved from: the same \<open>id\<close>, \<open>title\<close>, \<open>snippet\<close> and \<open>embedding\<close>.
\<close>

theorem cache_round_trip:
  "(writable d \<longrightarrow> (\<exists>d'. saveEmbeddingsToFile docs d = Inr d'))
   \<and> (\<forall>d'. saveEmbeddingsToFile docs d = Inr d' \<longrightarrow>
         (\<exists>loaded. loadEmbeddingsFromFile d' = Some loaded
            \<and> map as_document loaded = map Some docs))"
proof (intro conjI allI impI)
  assume "writable d"
  then show "\<exists>d'. saveEmbeddingsToFile docs d = Inr d'"
    by (simp add: saveEmbeddingsToFile_def)
next
  fix d'
  assume "saveEmbeddingsToFile docs d = Inr d'"
  then have "embeddings_file d' = Holds (embeddingsData docs)"
    by (auto simp: saveEmbeddingsToFile_def split: if_splits)
  with load_items_saved[of docs]
  show "\<exists>loaded. loadEmbeddingsFromFile d' = Some loaded
            \<and> map as_document loaded = map Some docs"
    by (auto simp: loadEmbeddingsFromFile_def embeddingsData_def)
qed

theorem cache_round_trip_witness:
  "writable example_disk
   \<and> (\<exists>d' loaded. saveEmbeddingsToFile example_corpus example_disk = Inr d'
         \<and> loadEmbeddingsFromFile d' = Some loaded
         \<and> map as_document loaded = map Some example_corpus)"
proof -
  have w: "writable example_disk" by (simp add: example_disk_def)
  from cache_round_trip[of example_disk example_corpus] w show ?thesis
    by blast
qed

section \<open>Properties of the document loader\<close>

lemma loadDocuments_loop_eq:
  "loadDocuments_loop readFile files documents console =
     (documents @ List.map_filter (read_ok readFile) files,
      console @ List.map_filter (read_failed readFile) files)"
  by (induction files arbitrary: documents console)
     (auto simp: List.map_filter_simps read_ok_def read_failed_def split: sum.splits)

lemma length_map_filter_read_ok:
  "length (List.map_filter (read_ok readFile) files) = length (filter (\<lambda>f. \<not> isl (readFile f)) files)"
  by (induction files) (auto simp: List.map_filter_simps read_ok_def split: sum.splits)

text \<open>
  Claim C4.  For every list of paths and every file system, \<open>loadDocuments\<close> does not
  throw (its result is \<open>Inr\<close>); it returns, in the order of the paths, exactly one
  document per path whose read succeeded, so as many documents as there are readable
  paths; and the console holds one error entry per path whose read failed, then the
  count of the loaded documents.
\<close>

theorem loadDocuments_skips_unreadable:
  "fst (loadDocuments readFile files) = Inr (List.map_filter (read_ok readFile) files)
   \<and> length (List.map_filter (read_ok readFile) files)
       = length (filter (\<lambda>f. \<not> isl (readFile f)) files)
   \<and> snd (loadDocuments readFile files)
       = List.map_filter (read_failed readFile) files
           @ [Loaded (length (filter (\<lambda>f. \<not> isl (readFile f)) files))]"
  by (simp add: loadDocuments_def loadDocuments_loop_eq length_map_filter_read_ok)

lemma make_document_examples:
  "make_document ''./documents/pride_prejudice_analysis.txt'' '' It is a truth. ''
     = \<lparr>doc_id = ''pride_prejudice_analysis'',
        data = \<lparr>title = ''Pride Prejudice Analysis'', snippet = ''It is a truth.''\<rparr>\<rparr>"
  "make_document ''./notes/moby_dick.MD'' ''Call me Ishmael.''
     = \<lparr>doc_id = ''moby_dick'', data = \<lparr>title = ''Moby Dick'', snippet = ''Call me Ishmael.''\<rparr>\<rparr>"
  by (simp_all add: make_document_def strip_extension_def last_segment_def ends_with_def
      toLowerCase_def toUpperCase_def is_word_char_def lower_case_def upper_case_def trim_def
      is_white_space_def Let_def)

theorem loadDocuments_skips_unreadable_witness:
  "fst (loadDocuments example_readFile example_files)
     = Inr [\<lparr>doc_id = ''pride_prejudice_analysis'',
              data = \<lparr>title = ''Pride Prejudice Analysis'', snippet = ''It is a truth.''\<rparr>\<rparr>,
            \<lparr>doc_id = ''moby_dick'',
              data = \<lparr>title = ''Moby Dick'', snippet = ''Call me Ishmael.''\<rparr>\<rparr>]
   \<and> snd (loadDocuments example_readFile example_files)
       = [ErrorReading ''./documents/missing.txt'' IOError, Loaded 2]"
  using loadDocuments_skips_unreadable[of example_readFile example_files]
  by (simp add: List.map_filter_simps read_ok_def read_failed_def example_readFile_def
      example_files_def make_document_examples)

section \<open>Properties of the route\<close>






text \<open>
  Claim C6.  For a request whose prompt is a non-empty string: if the embedding call
  fails, or the embedding call and the retrieval succeed and the chat call fails, the
  handler answers with status 500 and the body \<open>{ error: 'Cohere request failed' }\<close>,
  whatever the provider's error \<open>err\<close> holds.
\<close>

theorem generate_hides_provider_failure:
  assumes "req_body = Some members" and "members ''prompt'' = Some (JString p)" and "p \<noteq> []"
  shows "(fst (cohere_embed cohere (query_request (JString p)) w) = Inl err \<longrightarrow>
            fst (generate cohere cachedDocuments req_body w)
              = Inr \<lparr>status = 500, body = JObject [(''error'', JString ''Cohere request failed'')]\<rparr>)
       \<and> (cohere_embed cohere (query_request (JString p)) w = (Inr embedResponse, w')
            \<and> retrieve (embeddings embedResponse) cachedDocuments 5 = Inr topDocuments
            \<and> fst (cohere_chat cohere (grounded_chat (JString p) topDocuments) w') = Inl err \<longrightarrow>
            fst (generate cohere cachedDocuments req_body w)
              = Inr \<lparr>status = 500, body = JObject [(''error'', JString ''Cohere request failed'')]\<rparr>)"
  using assms
  by (auto simp: generate_def generate_try_def error_response_def split: prod.splits sum.splits)

lemma retrieve_example:
  "retrieve [[1, 0]] (Some example_corpus) 5
     = Inr [example_document ''along'' [1, 0], example_document ''across'' [0, 1],
            example_document ''against'' [- 1, 0]]"
  by (simp add: retrieve_def example_defs topK_eval)

theorem generate_hides_provider_failure_witness:
  "fst (generate embed_down_provider (Some example_corpus)
          (body_with_prompt (JString ''Who is Darcy?'')) example_world)
     = Inr \<lparr>status = 500, body = JObject [(''error'', JString ''Cohere request failed'')]\<rparr>
   \<and> fst (generate chat_down_provider (Some example_corpus)
          (body_with_prompt (JString ''Who is Darcy?'')) example_world)
     = Inr \<lparr>status = 500, body = JObject [(''error'', JString ''Cohere request failed'')]\<rparr>"
proof -
  let ?members = "Map.empty(''prompt'' \<mapsto> JString ''Who is Darcy?'')"
  have p: "body_with_prompt (JString ''Who is Darcy?'') = Some ?members"
    "?members ''prompt'' = Some (JString ''Who is Darcy?'')"
    "''Who is Darcy?'' \<noteq> []"
    by (simp_all add: body_with_prompt_def)
  have e: "fst (cohere_embed embed_down_provider (query_request (JString ''Who is Darcy?'')) example_world)
      = Inl (ProviderError ''429 too many requests, key sk-1'')"
    by (simp add: cohere_embed_def embed_down_provider_def example_world_def)
  have c: "cohere_embed chat_down_provider (query_request (JString ''Who is Darcy?'')) example_world
      = (Inr \<lparr>embeddings = [[1, 0]]\<rparr>,
         \<lparr>provider_state = 1, calls = [EmbedCall (query_request (JString ''Who is Darcy?''))]\<rparr>)"
    by (simp add: cohere_embed_def chat_down_provider_def example_world_def)
  have r: "retrieve (embeddings \<lparr>embeddings = [[1, 0]]\<rparr>) (Some example_corpus) 5
     = Inr [example_document ''along'' [1, 0], example_document ''across'' [0, 1],
            example_document ''against'' [- 1, 0]]"
    by (simp add: retrieve_example)
  have f: "fst (cohere_chat chat_down_provider
        (grounded_chat (JString ''Who is Darcy?'')
           [example_document ''along'' [1, 0], example_document ''across'' [0, 1],
            example_document ''against'' [- 1, 0]])
        \<lparr>provider_state = 1, calls = [EmbedCall (query_request (JString ''Who is Darcy?''))]\<rparr>)
      = Inl (ProviderError ''500 internal, trace 7f3a'')"
    by (simp add: cohere_chat_def chat_down_provider_def)
  from generate_hides_provider_failure[where req_body = "body_with_prompt (JString ''Who is Darcy?'')"
      and members = ?members
      and p = "''Who is Darcy?''" and cohere = embed_down_provider and w = example_world
      and err = "ProviderError ''429 too many requests, key sk-1''"
      and cachedDocuments = "Some example_corpus"] p e
  have one: "fst (generate embed_down_provider (Some example_corpus)
          (body_with_prompt (JString ''Who is Darcy?'')) example_world)
     = Inr \<lparr>status = 500, body = JObject [(''error'', JString ''Cohere request failed'')]\<rparr>"
    by blast
  from generate_hides_provider_failure[where req_body = "body_with_prompt (JString ''Who is Darcy?'')"
      and members = ?members
      and p = "''Who is Darcy?''" and cohere = chat_down_provider and w = example_world
      and err = "ProviderError ''500 internal, trace 7f3a''"
      and cachedDocuments = "Some example_corpus"
      and embedResponse = "\<lparr>embeddings = [[1, 0]]\<rparr>"
      and w' = "\<lparr>provider_state = 1,
                 calls = [EmbedCall (query_request (JString ''Who is Darcy?''))]\<rparr>"
      and topDocuments = "[example_document ''along'' [1, 0], example_document ''across'' [0, 1],
            example_document ''against'' [- 1, 0]]"] p c r f
  have two: "fst (generate chat_down_provider (Some example_corpus)
          (body_with_prompt (JString ''Who is Darcy?'')) example_world)
     = Inr \<lparr>status = 500, body = JObject [(''error'', JString ''Cohere request failed'')]\<rparr>"
    by blast
  from one two show ?thesis by simp
qed

section \<open>The input type of the embedding requests\<close>

lemma embed_input_types_append [simp]:
  "embed_input_types (xs @ ys) = embed_input_types xs @ embed_input_types ys"
  by (induction xs rule: embed_input_types.induct) auto

lemma generate_input_types:
  "\<exists>new. calls (snd (generate cohere cachedDocuments req_body w)) = calls w @ new
     \<and> set (embed_input_types new) \<subseteq> {''search_query''}"
  by (auto simp: generate_def generate_try_def cohere_embed_def cohere_chat_def query_request_def
      Let_def split: prod.splits sum.splits json.splits option.splits)

lemma generate_first_call:
  assumes "members ''prompt'' = Some (JString p)" and "p \<noteq> []"
  shows "\<exists>rest. calls (snd (generate cohere cachedDocuments (Some members) w))
           = calls w @ EmbedCall (query_request (JString p)) # rest"
  using assms
  by (auto simp: generate_def generate_try_def cohere_embed_def cohere_chat_def
      Let_def split: prod.splits sum.splits)

lemma embed_batches_document_type:
  assumes "0 < batchSize"
  shows "\<exists>result w'. embed_batches cohere docs batchSize i acc w = Some (result, w')
           \<and> (\<exists>new. calls w' = calls w @ new
                 \<and> (\<forall>c\<in>set new. \<exists>request. c = EmbedCall request
                       \<and> input_type request = ''search_document'')
                 \<and> length new \<le> length docs - i)"
proof (induction "length docs - i" arbitrary: i acc w rule: less_induct)
  case less
  show ?case
  proof (cases "i < length docs")
    case False
    then show ?thesis
      by (subst embed_batches.simps) simp
  next
    case True
    let ?batch = "array_slice docs (int i) (int (i + batchSize))"
    obtain answer w1 where c: "cohere_embed cohere (document_request ?batch) w = (answer, w1)"
      by (cases "cohere_embed cohere (document_request ?batch) w")
    then have w1: "calls w1 = calls w @ [EmbedCall (document_request ?batch)]"
      by (auto simp: cohere_embed_def Let_def split: prod.splits)
    show ?thesis
    proof (cases answer)
      case (Inl err)
      with True c w1 show ?thesis
        by (subst embed_batches.simps) (simp add: document_request_def)
    next
      case (Inr response)
      from True assms have "length docs - (i + batchSize) < length docs - i"
        by simp
      from less[OF this, of "acc @ embeddings response" w1]
      obtain result w' new where
        r: "embed_batches cohere docs batchSize (i + batchSize) (acc @ embeddings response) w1
              = Some (result, w')"
        and n: "calls w' = calls w1 @ new"
          "\<forall>c\<in>set new. \<exists>request. c = EmbedCall request \<and> input_type request = ''search_document''"
          "length new \<le> length docs - (i + batchSize)"
        by blast
      have "embed_batches cohere docs batchSize i acc w = Some (result, w')"
        using True c Inr r by (subst embed_batches.simps) simp
      moreover have "calls w' = calls w @ (EmbedCall (document_request ?batch) # new)"
        using n(1) w1 by simp
      moreover have "\<forall>c\<in>set (EmbedCall (document_request ?batch) # new).
          \<exists>request. c = EmbedCall request \<and> input_type request = ''search_document''"
        using n(2) by (simp add: document_request_def)
      moreover have "length (EmbedCall (document_request ?batch) # new) \<le> length docs - i"
        using n(3) True assms by simp
      ultimately show ?thesis by blast
    qed
  qed
qed

text \<open>
  Claim C9.  The server sends embedding requests from two places.  At startup,
  \<open>embedDocumentsInBatches\<close> (with its default batch size, or any positive one)
  returns, and every call it makes is an embedding request with the input type
  \<open>search_document\<close>.  In the \<open>/generate\<close> handler every embedding request carries
  \<open>search_query\<close>; and for a prompt that is a non-empty string the handler does send
  one, first of its calls, for that prompt.
\<close>

theorem embedding_requests_carry_their_purpose:
  "(0 < (case batchSize_arg of None \<Rightarrow> 96 | Some b \<Rightarrow> b) \<longrightarrow>
      (\<exists>result w'. embedDocumentsInBatches cohere docs batchSize_arg w = Some (result, w')
         \<and> (\<exists>new. calls w' = calls w @ new
               \<and> (\<forall>c\<in>set new. \<exists>request. c = EmbedCall request
                     \<and> input_type request = ''search_document''))))
   \<and> (\<exists>new. calls (snd (generate cohere cachedDocuments req_body w)) = calls w @ new
         \<and> set (embed_input_types new) \<subseteq> {''search_query''})
   \<and> (req_body = Some members \<and> members ''prompt'' = Some (JString p) \<and> p \<noteq> [] \<longrightarrow>
         (\<exists>rest. calls (snd (generate cohere cachedDocuments req_body w))
            = calls w @ EmbedCall (query_request (JString p)) # rest)
         \<and> input_type (query_request (JString p)) = ''search_query'')"
proof (intro conjI impI)
  assume "0 < (case batchSize_arg of None \<Rightarrow> 96 | Some b \<Rightarrow> b)"
  from embed_batches_document_type[OF this, of cohere docs 0 "[]" w]
  show "\<exists>result w'. embedDocumentsInBatches cohere docs batchSize_arg w = Some (result, w')
         \<and> (\<exists>new. calls w' = calls w @ new
               \<and> (\<forall>c\<in>set new. \<exists>request. c = EmbedCall request
                     \<and> input_type request = ''search_document''))"
    unfolding embedDocumentsInBatches_def by blast
next
  show "\<exists>new. calls (snd (generate cohere cachedDocuments req_body w)) = calls w @ new
         \<and> set (embed_input_types new) \<subseteq> {''search_query''}"
    by (rule generate_input_types)
next
  assume "req_body = Some members \<and> members ''prompt'' = Some (JString p) \<and> p \<noteq> []"
  then show "\<exists>rest. calls (snd (generate cohere cachedDocuments req_body w))
            = calls w @ EmbedCall (query_request (JString p)) # rest"
    using generate_first_call[of members p cohere cachedDocuments w] by blast
next
  show "input_type (query_request (JString p)) = ''search_query''"
    by (simp add: query_request_def)
qed

lemma startup_example:
  "embedDocumentsInBatches stub_provider example_raw_documents (Some 2) example_world
     = Some (Inr [[1, 0], [1, 0]],
         \<lparr>provider_state = 2,
          calls = [EmbedCall (document_request (take 2 example_raw_documents)),
                   EmbedCall (document_request (drop 2 example_raw_documents))]\<rparr>)"
  unfolding embedDocumentsInBatches_def
  apply (subst embed_batches.simps)
  apply (subst embed_batches.simps)
  apply (subst embed_batches.simps)
  apply (simp add: example_raw_documents_def cohere_embed_def stub_provider_def example_world_def
      array_slice_def)
  done

lemma generate_example_calls:
  "embed_input_types
     (calls (snd (generate stub_provider (Some example_corpus)
        (body_with_prompt (JString ''Who is Darcy?'')) example_world)))
   = [''search_query'']"
  by (simp add: generate_def generate_try_def body_with_prompt_def cohere_embed_def
      cohere_chat_def stub_provider_def example_world_def query_request_def retrieve_def
      Let_def)

theorem embedding_requests_carry_their_purpose_witness:
  "embed_input_types
     (calls (snd (the (embedDocumentsInBatches stub_provider example_raw_documents (Some 2)
        example_world))))
     = [''search_document'', ''search_document'']
   \<and> embed_input_types
     (calls (snd (generate stub_provider (Some example_corpus)
        (body_with_prompt (JString ''Who is Darcy?'')) example_world)))
     = [''search_query'']
   \<and> (\<exists>rest. calls (snd (generate stub_provider (Some example_corpus)
        (body_with_prompt (JString ''Who is Darcy?'')) example_world))
       = calls example_world @ EmbedCall (query_request (JString ''Who is Darcy?'')) # rest)"
proof -
  let ?members = "Map.empty(''prompt'' \<mapsto> JString ''Who is Darcy?'')"
  have p: "body_with_prompt (JString ''Who is Darcy?'') = Some ?members
      \<and> ?members ''prompt'' = Some (JString ''Who is Darcy?'') \<and> ''Who is Darcy?'' \<noteq> []"
    by (simp add: body_with_prompt_def)
  from embedding_requests_carry_their_purpose[where batchSize_arg = "Some 2"
      and cohere = stub_provider and docs = example_raw_documents and w = example_world
      and cachedDocuments = "Some example_corpus"
      and req_body = "body_with_prompt (JString ''Who is Darcy?'')"
      and members = ?members and p = "''Who is Darcy?''"] p
  have "\<exists>rest. calls (snd (generate stub_provider (Some example_corpus)
        (body_with_prompt (JString ''Who is Darcy?'')) example_world))
       = calls example_world @ EmbedCall (query_request (JString ''Who is Darcy?'')) # rest"
    by blast
  then show ?thesis
    by (simp add: startup_example generate_example_calls document_request_def)
qed

section \<open>Properties of the rounding\<close>

lemma round_half_even_unique: "\<bar>y - of_int n\<bar> < 1 / 2 \<Longrightarrow> round_half_even y = n"
proof -
  assume a: "\<bar>y - of_int n\<bar> < 1 / 2"
  show ?thesis
  proof (cases "of_int n \<le> y")
    case True
    have "\<lfloor>y\<rfloor> = n"
      by (rule floor_unique) (use a True in linarith)+
    with a True show ?thesis by (simp add: round_half_even_def Let_def)
  next
    case False
    have f: "\<lfloor>y\<rfloor> = n - 1"
      by (rule floor_unique) (use a False in \<open>simp; linarith\<close>)+
    from a False have "1 / 2 < y - of_int (n - 1)" by simp
    with f a False show ?thesis by (simp add: round_half_even_def Let_def)
  qed
qed


lemma round_half_even_of_int [simp]: "round_half_even (of_int n) = n"
  by (rule round_half_even_unique) simp

lemma double_exponent_eq:
  assumes "2 powr of_int e \<le> \<bar>x\<bar>" and "\<bar>x\<bar> < 2 powr of_int (e + 1)" and "- 1022 \<le> e"
  shows "double_exponent x = e"
proof -
  have pos: "0 < \<bar>x\<bar>" using assms(1) by (smt (verit) powr_gt_zero)
  have "\<lfloor>log 2 \<bar>x\<bar>\<rfloor> = e"
    using assms(1,2) pos by (subst floor_log_eq_powr_iff) (simp_all add: add.commute)
  with assms(3) show ?thesis by (simp add: double_exponent_def)
qed

lemma round_double_eqI:
  assumes "2 powr of_int e \<le> \<bar>x\<bar>" and "\<bar>x\<bar> < 2 powr of_int (e + 1)" and "- 1022 \<le> e"
    and "\<bar>x / 2 powr of_int (e - 52) - of_int n\<bar> < 1 / 2"
    and "\<bar>of_int n * 2 powr of_int (e - 52)\<bar> < (2 ^ 1024 :: real)"
  shows "round_double x = Num (of_int n * 2 powr of_int (e - 52))"
proof -
  have "x \<noteq> 0" using assms(1) by (smt (verit) powr_gt_zero)
  moreover have "double_exponent x = e" using assms(1-3) by (rule double_exponent_eq)
  moreover have "round_half_even (x / 2 powr of_int (e - 52)) = n"
    using assms(4) by (rule round_half_even_unique)
  ultimately show ?thesis using assms(5)
    by (simp add: round_double_def Let_def)
qed

lemma round_double_0 [simp]: "round_double 0 = Num 0"
  by (simp add: round_double_def)

lemma round_double_1 [simp]: "round_double 1 = Num 1"
  using round_double_eqI[of 0 1 "2 ^ 52"] by (simp add: powr_minus)







lemma three_below_nonzero [simp]: "three_below \<noteq> 0"
  by (simp add: three_below_def)













section \<open>Properties of the similarity\<close>







































end
